theory Spec2Isabelle
  imports Complex_Main "HOL-Library.Char_ord" "HOL-Library.List_Lexorder" "HOL-Library.Multiset"
begin

section \<open>Data model\<close>

text \<open>
  The interfaces of the type declarations. A JavaScript \<open>number\<close> that carries a score, a
  point value or a choice is an exact rational here (\<open>Math.round\<close> is rounding half up);
  a counter or an index that the code only initialises and increments is an \<open>int\<close>; an ISO
  timestamp string produced by \<open>new Date().toISOString()\<close> is the number of milliseconds it
  encodes. Fields that no modelled operation reads (description, creatorId, socketId, ...) are
  left out.
\<close>

type_synonym number = rat

record Question =
  q_id :: string
  q_text :: string
  choices :: "string list"
  correctAnswer :: number
  timeLimit :: number
  q_points :: number

record Quiz =
  quiz_id :: string
  title :: string
  questions :: "Question list"

record PlayerAnswer =
  questionId :: string
  selectedChoice :: number
  timeToAnswer :: number
  isCorrect :: bool
  points :: number
  submittedAt :: "int option"

record Player =
  p_id :: string
  p_name :: string
  p_sessionId :: string
  score :: number
  answers :: "PlayerAnswer list"
  isOnline :: bool
  joinedAt :: int

datatype Status = waiting | active | finished

record GameSession =
  s_id :: string
  quizId :: string
  hostId :: string
  joinCode :: string
  status :: Status
  currentQuestionIndex :: int
  s_players :: "Player list"
  createdAt :: int
  startedAt :: "int option"
  finishedAt :: "int option"
  quiz :: "Quiz option"

record LeaderboardEntry =
  l_playerId :: string
  l_playerName :: string
  l_score :: number
  l_rank :: int

record QuestionStat =
  qs_questionId :: string
  qs_questionText :: string
  qs_correctAnswer :: number
  correctCount :: nat
  totalAnswers :: nat

record GameResult =
  r_sessionId :: string
  r_quizId :: string
  quizTitle :: string
  r_hostId :: string
  completedAt :: int
  totalParticipants :: nat
  totalQuestions :: nat
  averageScore :: number
  leaderboard :: "LeaderboardEntry list"
  questionStats :: "QuestionStat list"
  isPublic :: bool
  duration :: "number option"

text \<open>The errors thrown inside the service methods, named after their messages.\<close>

datatype error =
    SessionNotFound       \<comment> \<open>'Session not found'\<close>
  | GameNotActive         \<comment> \<open>'Game is not active'\<close>
  | QuizNotFound          \<comment> \<open>'Quiz not found', 'Quiz not found in session'\<close>
  | QuestionNotFound      \<comment> \<open>'Question not found'\<close>
  | PlayerNotFound        \<comment> \<open>'Player not found'\<close>
  | DuplicateAnswer       \<comment> \<open>'Player already answered this question'\<close>
  | InvalidChoice         \<comment> \<open>'Invalid choice selected'\<close>
  | InvalidJoinCode       \<comment> \<open>'Invalid join code'\<close>
  | GameAlreadyStarted    \<comment> \<open>'Game has already started'\<close>
  | OnlyHost              \<comment> \<open>'Only host can start the game', 'Only host can control questions'\<close>
  | NoPlayers             \<comment> \<open>'No players joined'\<close>
  | CodeAllocationFailed  \<comment> \<open>'Could not generate unique join code'\<close>
  | TypeError             \<comment> \<open>a property read on \<open>undefined\<close>\<close>

section \<open>The persistence gateway\<close>

text \<open>
  The table behind the storage service, one component per item family. The player items of a
  session are the list a key query returns, in sort-key order (the sort key is
  \<open>PLAYER#\<close> followed by the player id). \<open>resultPuts\<close> is the trace of the game-result
  items written so far, oldest first. Every command is taken to reach the table, so each
  operation reports success.
\<close>

record Store =
  quizItems :: "string \<rightharpoonup> Quiz"
  sessionItems :: "string \<rightharpoonup> GameSession"
  playerItems :: "string \<Rightarrow> Player list"
  joinCodeItems :: "string \<rightharpoonup> string"
  gameResultItems :: "string \<rightharpoonup> GameResult"
  resultPuts :: "GameResult list"

definition getSession :: "Store \<Rightarrow> string \<Rightarrow> GameSession option" where
  "getSession st sessionId = sessionItems st sessionId"

text \<open>
  \<open>updateSession\<close> sets the listed attributes of the session item. Its callers read the
  session first, so the item exists; on a missing item the model leaves the table as it is.
\<close>

definition updateSession ::
  "Store \<Rightarrow> string \<Rightarrow> (GameSession \<Rightarrow> GameSession) \<Rightarrow> bool \<times> Store" where
  "updateSession st sessionId updates =
     (case sessionItems st sessionId of
        None \<Rightarrow> (True, st)
      | Some s \<Rightarrow> (True, st\<lparr>sessionItems := (sessionItems st)(sessionId \<mapsto> updates s)\<rparr>))"

definition getSessionPlayers :: "Store \<Rightarrow> string \<Rightarrow> Player list" where
  "getSessionPlayers st sessionId = playerItems st sessionId"

definition savePlayer :: "Store \<Rightarrow> string \<Rightarrow> Player \<Rightarrow> bool \<times> Store" where
  "savePlayer st sessionId player =
     (True, st\<lparr>playerItems := (playerItems st)(sessionId :=
        insort_key p_id player
          (filter (\<lambda>p. p_id p \<noteq> p_id player) (playerItems st sessionId)))\<rparr>)"

definition updatePlayer ::
  "Store \<Rightarrow> string \<Rightarrow> string \<Rightarrow> number \<Rightarrow> PlayerAnswer list \<Rightarrow> bool \<times> Store" where
  "updatePlayer st sessionId pid newScore newAnswers =
     (True, st\<lparr>playerItems := (playerItems st)(sessionId :=
        map (\<lambda>p. if p_id p = pid then p\<lparr>score := newScore, answers := newAnswers\<rparr> else p)
          (playerItems st sessionId))\<rparr>)"

definition removePlayerItem :: "Store \<Rightarrow> string \<Rightarrow> string \<Rightarrow> bool \<times> Store" where
  "removePlayerItem st sessionId pid =
     (True, st\<lparr>playerItems := (playerItems st)(sessionId :=
        filter (\<lambda>p. p_id p \<noteq> pid) (playerItems st sessionId))\<rparr>)"

definition getSessionByJoinCode :: "Store \<Rightarrow> string \<Rightarrow> string option" where
  "getSessionByJoinCode st code = joinCodeItems st code"

definition storeGameResult :: "Store \<Rightarrow> GameResult \<Rightarrow> bool \<times> Store" where
  "storeGameResult st gr =
     (True, st\<lparr>gameResultItems := (gameResultItems st)(r_sessionId gr \<mapsto> gr),
               resultPuts := resultPuts st @ [gr]\<rparr>)"

section \<open>Answer ranking and scoring\<close>

definition Math_round :: "number \<Rightarrow> number" where
  "Math_round x = of_int \<lfloor>x + 1 / 2\<rfloor>"

text \<open>\<open>Array.prototype.findIndex\<close>: the first index whose element satisfies the test, or -1.\<close>

fun findIndex :: "('a \<Rightarrow> bool) \<Rightarrow> 'a list \<Rightarrow> int" where
  "findIndex P [] = - 1"
| "findIndex P (x # xs) =
     (if P x then 0 else (let i = findIndex P xs in if i < 0 then - 1 else i + 1))"

record CorrectEntry =
  e_playerId :: string
  e_playerName :: string
  e_submittedAt :: int
  e_timeToAnswer :: number

text \<open>
  The loop over all players that collects, for each player, the first recorded correct answer
  to the question. An answer without a timestamp gets a clock reading; \<open>fallbackNow k\<close> is the
  reading taken in iteration \<open>k\<close>.
\<close>

fun collectCorrect :: "string \<Rightarrow> (nat \<Rightarrow> int) \<Rightarrow> nat \<Rightarrow> Player list \<Rightarrow> CorrectEntry list" where
  "collectCorrect qid fallbackNow k [] = []"
| "collectCorrect qid fallbackNow k (p # ps) =
     (case find (\<lambda>a. questionId a = qid \<and> isCorrect a = True) (answers p) of
        None \<Rightarrow> collectCorrect qid fallbackNow (Suc k) ps
      | Some a \<Rightarrow>
          \<lparr>e_playerId = p_id p, e_playerName = p_name p,
           e_submittedAt = (case submittedAt a of Some t \<Rightarrow> t | None \<Rightarrow> fallbackNow k),
           e_timeToAnswer = timeToAnswer a\<rparr>
          # collectCorrect qid fallbackNow (Suc k) ps)"

text \<open>The dynamic scoring of a correct answer from its rank and the number of correct answers.\<close>

definition dynamicPoints :: "number \<Rightarrow> int \<Rightarrow> int \<Rightarrow> number" where
  "dynamicPoints basePoints rnk totalCorrect =
     (if totalCorrect = 1 then basePoints
      else
        (let rankPercentage = 1 - (of_int (rnk - 1) / of_int totalCorrect) * (1 / 2);
             pts = Math_round (basePoints * rankPercentage);
             minPoints = Math_round (basePoints * (3 / 10))
         in max pts minPoints))"

text \<open>
  The branch for a correct answer: the entries of the other players plus the current one,
  sorted by submission time with the stable array sort, then the rank of the submitting player
  and the points. The result is (points, rank, totalCorrect).
\<close>

definition currentEntry :: "string \<Rightarrow> string \<Rightarrow> int \<Rightarrow> number \<Rightarrow> CorrectEntry" where
  "currentEntry pid pname tCur tta =
     \<lparr>e_playerId = pid, e_playerName = pname, e_submittedAt = tCur, e_timeToAnswer = tta\<rparr>"

definition correctAnswersForQuestion ::
  "Player list \<Rightarrow> string \<Rightarrow> (nat \<Rightarrow> int) \<Rightarrow> CorrectEntry \<Rightarrow> CorrectEntry list" where
  "correctAnswersForQuestion allPlayers qid fallbackNow cur =
     sort_key e_submittedAt (collectCorrect qid fallbackNow 0 allPlayers @ [cur])"

definition scoreCorrect ::
  "Player list \<Rightarrow> string \<Rightarrow> Question \<Rightarrow> Player \<Rightarrow> string \<Rightarrow> number \<Rightarrow> (nat \<Rightarrow> int)
     \<Rightarrow> int \<Rightarrow> number \<times> int \<times> int" where
  "scoreCorrect allPlayers qid question player pid tta fallbackNow tCur =
     (let sorted = correctAnswersForQuestion allPlayers qid fallbackNow
                     (currentEntry pid (p_name player) tCur tta);
          rnk = findIndex (\<lambda>a. e_playerId a = pid) sorted + 1;
          totalCorrect = int (length sorted)
      in (dynamicPoints (q_points question) rnk totalCorrect, rnk, totalCorrect))"

record AnswerResult =
  ar_isCorrect :: bool
  ar_points :: number
  ar_questionId :: string
  ar_rank :: "int option"
  ar_totalCorrect :: "int option"

text \<open>
  The body of \<open>submitAnswer\<close>: the thrown error or the returned object, and the table after the
  call. \<open>tCur\<close> is the clock reading taken for the current submission, \<open>tRec\<close> the later one
  stored in the answer record.
\<close>

definition submitAnswer_try ::
  "Store \<Rightarrow> string \<Rightarrow> string \<Rightarrow> string \<Rightarrow> number \<Rightarrow> number \<Rightarrow> (nat \<Rightarrow> int) \<Rightarrow> int \<Rightarrow> int
     \<Rightarrow> (error + AnswerResult) \<times> Store" where
  "submitAnswer_try st sessionId pid qid choice tta fallbackNow tCur tRec =
     (case getSession st sessionId of
        None \<Rightarrow> (Inl SessionNotFound, st)
      | Some session \<Rightarrow>
          if status session \<noteq> active then (Inl GameNotActive, st)
          else
            (case quiz session of
               None \<Rightarrow> (Inl QuizNotFound, st)
             | Some qz \<Rightarrow>
                 (case find (\<lambda>q. q_id q = qid) (questions qz) of
                    None \<Rightarrow> (Inl QuestionNotFound, st)
                  | Some question \<Rightarrow>
                      (case find (\<lambda>p. p_id p = pid) (getSessionPlayers st sessionId) of
                         None \<Rightarrow> (Inl PlayerNotFound, st)
                       | Some player \<Rightarrow>
                           (case find (\<lambda>a. questionId a = qid) (answers player) of
                              Some existingAnswer \<Rightarrow> (Inl DuplicateAnswer, st)
                            | None \<Rightarrow>
                                if choice < 0 \<or> choice \<ge> of_nat (length (choices question))
                                then (Inl InvalidChoice, st)
                                else
                                  (let correct = (choice = correctAnswer question);
                                       (pts, rnk, totalCorrect) =
                                          (if correct
                                           then scoreCorrect (getSessionPlayers st sessionId)
                                                  qid question player pid tta
                                                  fallbackNow tCur
                                           else (0, 0, 0));
                                       answer = \<lparr>questionId = qid, selectedChoice = choice,
                                                 timeToAnswer = tta, isCorrect = correct,
                                                 points = pts, submittedAt = Some tRec\<rparr>;
                                       (ok, st') = updatePlayer st sessionId pid
                                                     (score player + pts)
                                                     (answers player @ [answer])
                                   in (Inr \<lparr>ar_isCorrect = correct, ar_points = pts,
                                            ar_questionId = qid,
                                            ar_rank = (if correct then Some rnk else None),
                                            ar_totalCorrect =
                                              (if correct then Some totalCorrect else None)\<rparr>,
                                       st')))))))"

text \<open>The method itself: every thrown error is caught and \<open>null\<close> is returned.\<close>

definition submitAnswer ::
  "Store \<Rightarrow> string \<Rightarrow> string \<Rightarrow> string \<Rightarrow> number \<Rightarrow> number \<Rightarrow> (nat \<Rightarrow> int) \<Rightarrow> int \<Rightarrow> int
     \<Rightarrow> AnswerResult option \<times> Store" where
  "submitAnswer st sessionId pid qid choice tta fallbackNow tCur tRec =
     (case submitAnswer_try st sessionId pid qid choice tta fallbackNow tCur tRec of
        (Inl e, st') \<Rightarrow> (None, st')
      | (Inr r, st') \<Rightarrow> (Some r, st'))"

section \<open>Join codes\<close>

text \<open>
  \<open>String.prototype.toUpperCase\<close> on the characters a base-36 rendering is made of, and the
  generator itself. Its argument is the text \<open>Math.random().toString(36)\<close> of the draw: the
  runtime renders a draw as \<open>0.\<close> followed by the base-36 digits of the fraction, e.g.
  \<open>0.i\<close> for the draw 0.5 and \<open>0\<close> for the draw 0.
\<close>

definition toUpperCase_char :: "char \<Rightarrow> char" where
  "toUpperCase_char c =
     (case map_of (zip ''abcdefghijklmnopqrstuvwxyz'' ''ABCDEFGHIJKLMNOPQRSTUVWXYZ'') c of
        Some u \<Rightarrow> u
      | None \<Rightarrow> c)"

definition toUpperCase :: "string \<Rightarrow> string" where
  "toUpperCase s = map toUpperCase_char s"

definition substring :: "string \<Rightarrow> nat \<Rightarrow> nat \<Rightarrow> string" where
  "substring s i j = take (j - i) (drop i s)"

definition generateJoinCode :: "string \<Rightarrow> string" where
  "generateJoinCode rendering = toUpperCase (substring rendering 2 8)"

definition isUpperAlnum :: "char \<Rightarrow> bool" where
  "isUpperAlnum c = (c \<in> set ''ABCDEFGHIJKLMNOPQRSTUVWXYZ0123456789'')"

definition isBase36Digit :: "char \<Rightarrow> bool" where
  "isBase36Digit c = (c \<in> set ''0123456789abcdefghijklmnopqrstuvwxyz'')"

text \<open>The renderings of the draws in [0, 1): \<open>0\<close>, or \<open>0.\<close> and at least one digit.\<close>

definition isRendering :: "string \<Rightarrow> bool" where
  "isRendering s =
     (s = ''0'' \<or> (take 2 s = ''0.'' \<and> drop 2 s \<noteq> [] \<and> list_all isBase36Digit (drop 2 s)))"

section \<open>Sessions\<close>






section \<open>Joining\<close>

text \<open>The decimal text of a counter, as a template literal renders it.\<close>

function decimal :: "nat \<Rightarrow> string" where
  "decimal n =
     (if n < 10 then [''0123456789'' ! n]
      else decimal (n div 10) @ [''0123456789'' ! (n mod 10)])"
  by pat_completeness auto
termination
  by (relation "measure id") auto

definition undecimal :: "string \<Rightarrow> nat" where
  "undecimal s = foldl (\<lambda>a c. 10 * a + (of_char c - 48)) 0 s"

declare decimal.simps [simp del]

text \<open>Reading a decimal text back shows that distinct counters have distinct texts.\<close>

lemma undecimal_snoc: "undecimal (s @ [c]) = 10 * undecimal s + (of_char c - 48)"
  by (simp add: undecimal_def)

lemma of_char_digit: "d < 10 \<Longrightarrow> (of_char (''0123456789'' ! d) :: nat) = 48 + d"
  by (auto simp: less_Suc_eq numeral_eq_Suc nth_Cons')

lemma undecimal_decimal: "undecimal (decimal n) = n"
proof (induction n rule: decimal.induct)
  case (1 n)
  show ?case
  proof (cases "n < 10")
    case True
    then show ?thesis
      by (subst decimal.simps) (simp add: undecimal_def of_char_digit del: nth_Cons_numeral)
  next
    case False
    have "n mod 10 < 10" by simp
    then have "(of_char (''0123456789'' ! (n mod 10)) :: nat) = 48 + n mod 10"
      by (rule of_char_digit)
    with False 1 show ?thesis
      by (subst decimal.simps) (simp add: undecimal_snoc del: nth_Cons_numeral)
  qed
qed

lemma inj_decimal: "inj decimal"
  by (rule inj_on_inverseI [of _ undecimal]) (rule undecimal_decimal)

text \<open>
  The candidates \<open>name2, name3, ...\<close> are pairwise distinct, so only finitely many of them
  are held by a player; their number beyond the current counter bounds the remaining
  iterations of the naming loop of \<open>joinSession\<close>.
\<close>

definition nameTaken :: "Player list \<Rightarrow> string \<Rightarrow> bool" where
  "nameTaken players nm = (find (\<lambda>p. p_name p = nm) players \<noteq> None)"

definition laterTaken :: "Player list \<Rightarrow> string \<Rightarrow> nat \<Rightarrow> nat set" where
  "laterTaken players playerName k = {j. k < j \<and> nameTaken players (playerName @ decimal j)}"

lemma nameTaken_iff: "nameTaken players nm \<longleftrightarrow> nm \<in> p_name ` set players"
  by (auto simp: nameTaken_def find_None_iff)

lemma finite_laterTaken: "finite (laterTaken players playerName k)"
proof -
  have inj: "inj (\<lambda>j. playerName @ decimal j)"
    using inj_decimal by (auto simp: inj_def)
  have "laterTaken players playerName k \<subseteq> (\<lambda>j. playerName @ decimal j) -` (p_name ` set players)"
    by (auto simp: laterTaken_def nameTaken_iff)
  moreover have "finite ((\<lambda>j. playerName @ decimal j) -` (p_name ` set players))"
    by (rule finite_vimageI [OF _ inj]) simp
  ultimately show ?thesis by (rule finite_subset)
qed

lemma laterTaken_step:
  "laterTaken players playerName k =
     (if nameTaken players (playerName @ decimal (Suc k))
      then insert (Suc k) (laterTaken players playerName (Suc k))
      else laterTaken players playerName (Suc k))"
  by (auto simp: laterTaken_def Suc_lessI dest: Suc_lessD) (metis Suc_lessI)+

text \<open>
  The while loop of \<open>joinSession\<close>: the state is the candidate name and the counter. The
  counter is a natural number (the code starts it at 1 and increments it).
\<close>

function uniqueNameLoop :: "Player list \<Rightarrow> string \<Rightarrow> string \<Rightarrow> nat \<Rightarrow> string" where
  "uniqueNameLoop players playerName uniquePlayerName nameCounter =
     (if find (\<lambda>p. p_name p = uniquePlayerName) players \<noteq> None
      then uniqueNameLoop players playerName (playerName @ decimal (nameCounter + 1))
             (nameCounter + 1)
      else uniquePlayerName)"
  by pat_completeness auto
termination
proof (relation "measure (\<lambda>(players, playerName, cur, k).
          card (laterTaken players playerName k) + (if nameTaken players cur then 1 else 0))")
  show "wf (measure (\<lambda>(players, playerName, cur, k).
          card (laterTaken players playerName k) + (if nameTaken players cur then 1 else 0)))"
    by simp
next
  fix players :: "Player list" and playerName uniquePlayerName :: string and nameCounter :: nat
  assume taken: "find (\<lambda>p. p_name p = uniquePlayerName) players \<noteq> None"
  have fin: "finite (laterTaken players playerName (Suc nameCounter))"
    by (rule finite_laterTaken)
  have notin: "Suc nameCounter \<notin> laterTaken players playerName (Suc nameCounter)"
    by (simp add: laterTaken_def)
  show "((players, playerName, playerName @ decimal (nameCounter + 1), nameCounter + 1),
         (players, playerName, uniquePlayerName, nameCounter))
        \<in> measure (\<lambda>(players, playerName, cur, k).
          card (laterTaken players playerName k) + (if nameTaken players cur then 1 else 0))"
    using taken fin notin
    by (simp add: laterTaken_step [of players playerName nameCounter] nameTaken_def)
qed


definition joinSession_try ::
  "Store \<Rightarrow> string \<Rightarrow> string \<Rightarrow> string \<Rightarrow> int \<Rightarrow> (error + GameSession \<times> Player) \<times> Store" where
  "joinSession_try st code playerName newId now =
     (case getSessionByJoinCode st code of
        None \<Rightarrow> (Inl InvalidJoinCode, st)
      | Some sessionId \<Rightarrow>
          (case getSession st sessionId of
             None \<Rightarrow> (Inl SessionNotFound, st)
           | Some session \<Rightarrow>
               if status session \<noteq> waiting then (Inl GameAlreadyStarted, st)
               else
                 (let players = getSessionPlayers st sessionId;
                      uniquePlayerName = uniqueNameLoop players playerName playerName 1;
                      player = \<lparr>p_id = newId, p_name = uniquePlayerName,
                                 p_sessionId = sessionId, score = 0, answers = [],
                                 isOnline = True, joinedAt = now\<rparr>;
                      (ok, st') = savePlayer st sessionId player
                  in (Inr (session\<lparr>s_players := players @ [player]\<rparr>, player), st'))))"

definition joinSession ::
  "Store \<Rightarrow> string \<Rightarrow> string \<Rightarrow> string \<Rightarrow> int \<Rightarrow> (GameSession \<times> Player) option \<times> Store" where
  "joinSession st code playerName newId now =
     (case joinSession_try st code playerName newId now of
        (Inl e, st') \<Rightarrow> (None, st')
      | (Inr r, st') \<Rightarrow> (Some r, st'))"

text \<open>
  The \<open>player_join\<close> message handler, as far as its reply goes: the success reply carries the
  session, the player and, when the name was changed, the original and the final name; a
  failed join is answered with an error message.
\<close>

record JoinReply =
  jr_session :: GameSession
  jr_player :: Player
  nameChanged :: "(string \<times> string) option"

definition player_join ::
  "Store \<Rightarrow> string \<Rightarrow> string \<Rightarrow> string \<Rightarrow> int \<Rightarrow> JoinReply option \<times> Store" where
  "player_join st code playerName newId now =
     (case joinSession st code playerName newId now of
        (None, st') \<Rightarrow> (None, st')
      | (Some (session, player), st') \<Rightarrow>
          (Some \<lparr>jr_session = session, jr_player = player,
                 nameChanged = (if p_name player \<noteq> playerName
                                then Some (playerName, p_name player) else None)\<rparr>, st'))"

definition startGame_try :: "Store \<Rightarrow> string \<Rightarrow> string \<Rightarrow> int \<Rightarrow> (error + unit) \<times> Store" where
  "startGame_try st sessionId host now =
     (case getSession st sessionId of
        None \<Rightarrow> (Inl SessionNotFound, st)
      | Some session \<Rightarrow>
          if hostId session \<noteq> host then (Inl OnlyHost, st)
          else if status session \<noteq> waiting then (Inl GameAlreadyStarted, st)
          else if length (getSessionPlayers st sessionId) = 0 then (Inl NoPlayers, st)
          else
            (let (ok, st') = updateSession st sessionId
                               (\<lambda>s. s\<lparr>status := active, startedAt := Some now\<rparr>)
             in (Inr (), st')))"

definition startGame :: "Store \<Rightarrow> string \<Rightarrow> string \<Rightarrow> int \<Rightarrow> bool \<times> Store" where
  "startGame st sessionId host now =
     (case startGame_try st sessionId host now of
        (Inl e, st') \<Rightarrow> (False, st')
      | (Inr u, st') \<Rightarrow> (True, st'))"

section \<open>Leaderboard and game result\<close>

record LeaderboardData =
  ld_playerId :: string
  ld_playerName :: string
  ld_score :: number

text \<open>
  The array sort with the comparator \<open>b.score - a.score\<close> is the stable sort by descending
  score, that is, by the key \<open>- score\<close>.
\<close>

definition getLeaderboard :: "Store \<Rightarrow> string \<Rightarrow> LeaderboardEntry list" where
  "getLeaderboard st sessionId =
     (let players = getSessionPlayers st sessionId;
          leaderboardData = map (\<lambda>player. \<lparr>ld_playerId = p_id player,
                                   ld_playerName = p_name player,
                                   ld_score = score player\<rparr>) players;
          sorted = sort_key (\<lambda>a. - ld_score a) leaderboardData
      in map (\<lambda>(index, player). \<lparr>l_playerId = ld_playerId player,
                                    l_playerName = ld_playerName player,
                                    l_score = ld_score player,
                                    l_rank = int index + 1\<rparr>)
           (enumerate 0 sorted))"

definition questionStat :: "Player list \<Rightarrow> Question \<Rightarrow> QuestionStat" where
  "questionStat players question =
     (let questionAnswers =
            concat (map (\<lambda>player. filter (\<lambda>answer. questionId answer = q_id question)
                                    (answers player)) players)
      in \<lparr>qs_questionId = q_id question, qs_questionText = q_text question,
          qs_correctAnswer = correctAnswer question,
          correctCount = length (filter isCorrect questionAnswers),
          totalAnswers = length questionAnswers\<rparr>)"

text \<open>The object built by \<open>saveGameResult\<close>; \<open>now\<close> is the clock reading for completedAt.\<close>

definition buildGameResult ::
  "string \<Rightarrow> GameSession \<Rightarrow> Quiz \<Rightarrow> Player list \<Rightarrow> LeaderboardEntry list \<Rightarrow> int
     \<Rightarrow> GameResult" where
  "buildGameResult sessionId session qz players lb now =
     (let participants = length players;
          average = (if participants > 0
                     then Math_round (foldl (\<lambda>sum player. sum + score player) 0 players
                                        / of_nat participants)
                     else 0)
      in \<lparr>r_sessionId = sessionId, r_quizId = quizId session, quizTitle = title qz,
          r_hostId = hostId session, completedAt = now,
          totalParticipants = participants,
          totalQuestions = length (questions qz),
          averageScore = average,
          leaderboard = lb,
          questionStats = map (questionStat players) (questions qz),
          isPublic = True,
          duration = (case (startedAt session, finishedAt session) of
                        (Some s, Some f) \<Rightarrow> Some (Math_round (of_int (f - s) / 1000))
                      | _ \<Rightarrow> None)\<rparr>)"

definition saveGameResult :: "Store \<Rightarrow> string \<Rightarrow> int \<Rightarrow> Store" where
  "saveGameResult st sessionId now =
     (case getSession st sessionId of
        None \<Rightarrow> st
      | Some session \<Rightarrow>
          (let players = getSessionPlayers st sessionId;
               lb = getLeaderboard st sessionId
           in case quiz session of
                None \<Rightarrow> st
              | Some qz \<Rightarrow>
                  (let gameResult = buildGameResult sessionId session qz players lb now;
                       (saved, st') = storeGameResult st gameResult
                   in st')))"

text \<open>
  \<open>finishGame\<close>: \<open>tFinish\<close> is the clock reading stored as finishedAt, \<open>tComplete\<close> the later
  one stored in the game result.
\<close>

definition finishGame :: "Store \<Rightarrow> string \<Rightarrow> int \<Rightarrow> int \<Rightarrow> bool \<times> Store" where
  "finishGame st sessionId tFinish tComplete =
     (case getSession st sessionId of
        None \<Rightarrow> (False, st)
      | Some existingSession \<Rightarrow>
          (let (updateResult, st1) = updateSession st sessionId
                                       (\<lambda>s. s\<lparr>status := finished, finishedAt := Some tFinish\<rparr>)
           in if \<not> updateResult then (False, st1)
              else (True, saveGameResult st1 sessionId tComplete)))"

definition nextQuestion_try ::
  "Store \<Rightarrow> string \<Rightarrow> string \<Rightarrow> int \<Rightarrow> int \<Rightarrow> (error + Question option) \<times> Store" where
  "nextQuestion_try st sessionId host tFinish tComplete =
     (case getSession st sessionId of
        None \<Rightarrow> (Inl SessionNotFound, st)
      | Some session \<Rightarrow>
          if hostId session \<noteq> host then (Inl OnlyHost, st)
          else if status session \<noteq> active then (Inl GameNotActive, st)
          else
            (case quiz session of
               None \<Rightarrow> (Inl QuizNotFound, st)
             | Some qz \<Rightarrow>
                 (let currentIndex = currentQuestionIndex session
                  in if currentIndex \<ge> int (length (questions qz))
                     then (let (done, st') = finishGame st sessionId tFinish tComplete
                           in (Inr None, st'))
                     else if currentIndex < 0 then (Inl TypeError, st)
                     else
                       (let question = questions qz ! nat currentIndex;
                            nextIndex = currentIndex + 1;
                            (ok, st') = updateSession st sessionId
                                          (\<lambda>s. s\<lparr>currentQuestionIndex := nextIndex\<rparr>)
                        in (Inr (Some question), st')))))"

definition nextQuestion ::
  "Store \<Rightarrow> string \<Rightarrow> string \<Rightarrow> int \<Rightarrow> int \<Rightarrow> Question option \<times> Store" where
  "nextQuestion st sessionId host tFinish tComplete =
     (case nextQuestion_try st sessionId host tFinish tComplete of
        (Inl e, st') \<Rightarrow> (None, st')
      | (Inr q, st') \<Rightarrow> (q, st'))"

definition removePlayer :: "Store \<Rightarrow> string \<Rightarrow> string \<Rightarrow> bool \<times> Store" where
  "removePlayer st sessionId pid = removePlayerItem st sessionId pid"

section \<open>Sequences of service calls\<close>

text \<open>
  A call of a service method on an existing table, with the identifiers and clock readings
  the call draws, and the table after a sequence of calls.
\<close>

datatype call =
    JoinSession string string string int
  | StartGame string string int
  | NextQuestion string string int int
  | SubmitAnswer string string string number number "nat \<Rightarrow> int" int int
  | FinishGame string int int
  | RemovePlayer string string

fun exec :: "Store \<Rightarrow> call \<Rightarrow> Store" where
  "exec st (JoinSession code playerName newId now) =
     snd (joinSession st code playerName newId now)"
| "exec st (StartGame sessionId host now) = snd (startGame st sessionId host now)"
| "exec st (NextQuestion sessionId host tFinish tComplete) =
     snd (nextQuestion st sessionId host tFinish tComplete)"
| "exec st (SubmitAnswer sessionId pid qid choice tta fallbackNow tCur tRec) =
     snd (submitAnswer st sessionId pid qid choice tta fallbackNow tCur tRec)"
| "exec st (FinishGame sessionId tFinish tComplete) =
     snd (finishGame st sessionId tFinish tComplete)"
| "exec st (RemovePlayer sessionId pid) = snd (removePlayer st sessionId pid)"

definition run :: "Store \<Rightarrow> call list \<Rightarrow> Store" where
  "run st calls = foldl exec st calls"

section \<open>Example data\<close>

definition exQuestion :: Question where
  "exQuestion = \<lparr>q_id = ''q1'', q_text = ''1 + 1 = ?'', choices = [''1'', ''2'', ''3'', ''11''],
     correctAnswer = 1, timeLimit = 10, q_points = 100\<rparr>"

definition exQuiz :: Quiz where
  "exQuiz = \<lparr>quiz_id = ''quiz'', title = ''demo'', questions = [exQuestion]\<rparr>"

definition exSession :: "Status \<Rightarrow> int \<Rightarrow> GameSession" where
  "exSession stat idx = \<lparr>s_id = ''s1'', quizId = ''quiz'', hostId = ''host'',
     joinCode = ''ABC123'', status = stat, currentQuestionIndex = idx, s_players = [],
     createdAt = 0, startedAt = Some 5, finishedAt = None, quiz = Some exQuiz\<rparr>"

definition exAnswer :: "int \<Rightarrow> number \<Rightarrow> PlayerAnswer" where
  "exAnswer t pts = \<lparr>questionId = ''q1'', selectedChoice = 1, timeToAnswer = 1000,
     isCorrect = True, points = pts, submittedAt = Some t\<rparr>"

definition exPlayer :: "string \<Rightarrow> string \<Rightarrow> number \<Rightarrow> PlayerAnswer list \<Rightarrow> Player" where
  "exPlayer pid nm sc as = \<lparr>p_id = pid, p_name = nm, p_sessionId = ''s1'',
     score = sc, answers = as, isOnline = True, joinedAt = 1\<rparr>"

definition exStore :: "Status \<Rightarrow> int \<Rightarrow> Player list \<Rightarrow> Store" where
  "exStore stat idx ps = \<lparr>quizItems = [''quiz'' \<mapsto> exQuiz],
     sessionItems = [''s1'' \<mapsto> exSession stat idx],
     playerItems = (\<lambda>sid. if sid = ''s1'' then ps else []),
     joinCodeItems = [''ABC123'' \<mapsto> ''s1''],
     gameResultItems = Map.empty, resultPuts = []\<rparr>"

definition exPlayers4 :: "Player list" where
  "exPlayers4 = [exPlayer ''p1'' ''Ann'' 100 [exAnswer 10 100],
     exPlayer ''p2'' ''Bob'' 75 [exAnswer 20 75],
     exPlayer ''p3'' ''Cy'' 67 [exAnswer 30 67], exPlayer ''p4'' ''Di'' 0 []]"

lemmas ex_defs = exQuestion_def exQuiz_def exSession_def exAnswer_def exPlayer_def exStore_def
  exPlayers4_def

section \<open>Notions used to state the properties\<close>



definition exClock :: "nat \<Rightarrow> int" where
  "exClock k = 0"



text \<open>
  What a leaderboard entry and a player say about a standing (id, name, score), to compare
  the leaderboard with the player items it was computed from.
\<close>

definition standing :: "LeaderboardEntry \<Rightarrow> string \<times> string \<times> number" where
  "standing e = (l_playerId e, l_playerName e, l_score e)"

definition playerStanding :: "Player \<Rightarrow> string \<times> string \<times> number" where
  "playerStanding p = (p_id p, p_name p, score p)"

definition scoreOf :: "string \<times> string \<times> number \<Rightarrow> number" where
  "scoreOf x = snd (snd x)"

definition exPlayersTie :: "Player list" where
  "exPlayersTie = [exPlayer ''p1'' ''Ann'' 50 [], exPlayer ''p2'' ''Bob'' 75 [],
     exPlayer ''p3'' ''Cy'' 75 []]"

definition exPlayersAnn :: "Player list" where
  "exPlayersAnn = [exPlayer ''p1'' ''Ann'' 0 [], exPlayer ''p2'' ''Ann2'' 0 []]"

text \<open>
  A player record is consistent when its score is the sum of the points of its answers and
  no two of its answers are for the same question.
\<close>

definition playerOk :: "Player \<Rightarrow> bool" where
  "playerOk p = (score p = sum_list (map points (answers p))
                 \<and> distinct (map questionId (answers p)))"

definition playersOk :: "Player list \<Rightarrow> bool" where
  "playersOk ps = list_all playerOk ps"

definition exCalls :: "call list" where
  "exCalls = [JoinSession ''ABC123'' ''Ann'' ''p1'' 1, StartGame ''s1'' ''host'' 2,
     SubmitAnswer ''s1'' ''p1'' ''q1'' 1 900 exClock 40 41,
     SubmitAnswer ''s1'' ''p1'' ''q1'' 1 900 exClock 50 51]"



section \<open>Auxiliary facts\<close>










lemma submitAnswer_try_success:
  assumes "submitAnswer_try st sid pid qid choice tta fb tCur tRec = (Inr res, st')"
  obtains session qz question player where
    "getSession st sid = Some session" "status session = active" "quiz session = Some qz"
    "find (\<lambda>q. q_id q = qid) (questions qz) = Some question"
    "find (\<lambda>p. p_id p = pid) (getSessionPlayers st sid) = Some player"
    "find (\<lambda>a. questionId a = qid) (answers player) = None"
    "0 \<le> choice" "choice < of_nat (length (choices question))"
    "ar_isCorrect res = (choice = correctAnswer question)"
    "ar_isCorrect res \<Longrightarrow>
       (ar_points res, the (ar_rank res), the (ar_totalCorrect res)) =
          scoreCorrect (getSessionPlayers st sid) qid question player pid tta fb tCur
       \<and> ar_rank res \<noteq> None \<and> ar_totalCorrect res \<noteq> None"
    "\<not> ar_isCorrect res \<Longrightarrow> ar_points res = 0 \<and> ar_rank res = None \<and> ar_totalCorrect res = None"
    "st' = snd (updatePlayer st sid pid (score player + ar_points res)
             (answers player @ [\<lparr>questionId = qid, selectedChoice = choice,
                 timeToAnswer = tta, isCorrect = ar_isCorrect res,
                 points = ar_points res, submittedAt = Some tRec\<rparr>]))"
  using assms unfolding submitAnswer_try_def
  by (auto split: option.splits if_splits prod.splits simp: Let_def)

section \<open>Scoring of a correct answer\<close>



section \<open>Duplicate submissions\<close>




section \<open>Finishing a game\<close>

lemma sessionItems_saveGameResult [simp]:
  "sessionItems (saveGameResult st sid now) = sessionItems st"
  by (simp add: saveGameResult_def storeGameResult_def Let_def split: option.splits)

lemma playerItems_saveGameResult [simp]:
  "playerItems (saveGameResult st sid now) = playerItems st"
  by (simp add: saveGameResult_def storeGameResult_def Let_def split: option.splits)













section \<open>Order and ranks of the leaderboard\<close>

lemma map_insort_key:
  "map g (insort_key (\<lambda>x. h (g x)) x xs) = insort_key h (g x) (map g xs)"
  by (induction xs) simp_all

lemma map_sort_key:
  "map g (sort_key (\<lambda>x. h (g x)) xs) = sort_key h (map g xs)"
  by (induction xs) (simp_all add: map_insort_key)

lemma getLeaderboard_standings:
  "map standing (getLeaderboard st sid) =
     sort_key (\<lambda>x. - scoreOf x) (map playerStanding (getSessionPlayers st sid))"
proof -
  let ?ps = "getSessionPlayers st sid"
  let ?data = "map (\<lambda>player. \<lparr>ld_playerId = p_id player, ld_playerName = p_name player,
                     ld_score = score player\<rparr>) ?ps"
  let ?g = "\<lambda>d. (ld_playerId d, ld_playerName d, ld_score d)"
  have "map standing (getLeaderboard st sid)
          = map (?g \<circ> snd) (enumerate 0 (sort_key (\<lambda>a. - ld_score a) ?data))"
    by (simp add: getLeaderboard_def Let_def standing_def comp_def case_prod_beta)
  also have "\<dots> = map ?g (sort_key (\<lambda>a. - ld_score a) ?data)"
    by (simp add: map_map [symmetric] del: map_map)
  also have "\<dots> = map ?g (sort_key (\<lambda>d. - scoreOf (?g d)) ?data)"
    by (simp add: scoreOf_def)
  also have "\<dots> = sort_key (\<lambda>x. - scoreOf x) (map ?g ?data)"
    by (rule map_sort_key)
  also have "map ?g ?data = map playerStanding ?ps"
    by (simp add: playerStanding_def comp_def)
  finally show ?thesis .
qed

lemma getLeaderboard_ranks:
  "map l_rank (getLeaderboard st sid) = map (\<lambda>i. int i + 1) [0..<length (getSessionPlayers st sid)]"
proof -
  let ?ps = "getSessionPlayers st sid"
  let ?data = "map (\<lambda>player. \<lparr>ld_playerId = p_id player, ld_playerName = p_name player,
                     ld_score = score player\<rparr>) ?ps"
  let ?sorted = "sort_key (\<lambda>a. - ld_score a) ?data"
  have "map l_rank (getLeaderboard st sid) = map ((\<lambda>i. int i + 1) \<circ> fst) (enumerate 0 ?sorted)"
    by (simp add: getLeaderboard_def Let_def comp_def case_prod_beta)
  also have "\<dots> = map (\<lambda>i. int i + 1) (map fst (enumerate 0 ?sorted))"
    by (simp only: map_map)
  also have "map fst (enumerate 0 ?sorted) = [0..<length ?ps]"
    by (simp add: map_fst_enumerate)
  finally show ?thesis .
qed

text \<open>
  C6. \<open>getLeaderboard\<close> returns one entry per current player, sorted by descending score;
  players with equal scores keep the order in which the player query returned them (the sort
  is stable), and the rank of the i-th entry (1-based) is exactly i.
\<close>

theorem getLeaderboard_sorted_ranked:
  "length (getLeaderboard st sid) = length (getSessionPlayers st sid)
   \<and> mset (map standing (getLeaderboard st sid)) = mset (map playerStanding (getSessionPlayers st sid))
   \<and> sorted_wrt (\<lambda>a b. l_score a \<ge> l_score b) (getLeaderboard st sid)
   \<and> (\<forall>sc. filter (\<lambda>x. scoreOf x = sc) (map standing (getLeaderboard st sid))
            = filter (\<lambda>x. scoreOf x = sc) (map playerStanding (getSessionPlayers st sid)))
   \<and> map l_rank (getLeaderboard st sid)
        = map (\<lambda>i. int i + 1) [0..<length (getLeaderboard st sid)]"
proof -
  let ?lb = "getLeaderboard st sid"
  let ?ps = "getSessionPlayers st sid"
  note st = getLeaderboard_standings [of st sid]
  have len: "length ?lb = length ?ps"
    using arg_cong [OF st, of length] by simp
  have ms: "mset (map standing ?lb) = mset (map playerStanding ?ps)"
    unfolding st by simp
  have "sorted (map (\<lambda>x. - scoreOf x) (map standing ?lb))"
    unfolding st by (rule sorted_sort_key)
  then have "sorted_wrt (\<lambda>a b. - l_score a \<le> - l_score b) ?lb"
    by (simp add: sorted_map scoreOf_def standing_def comp_def sorted_wrt_map)
  then have srt: "sorted_wrt (\<lambda>a b. l_score a \<ge> l_score b) ?lb"
    by simp
  have stable: "filter (\<lambda>x. scoreOf x = sc) (map standing ?lb)
            = filter (\<lambda>x. scoreOf x = sc) (map playerStanding ?ps)" for sc
  proof -
    have eq: "(\<lambda>x. scoreOf x = sc) = (\<lambda>x. - scoreOf x = - sc)" by auto
    show ?thesis unfolding st eq by (rule sort_key_stable)
  qed
  from len ms srt stable getLeaderboard_ranks [of st sid] show ?thesis by simp
qed

theorem getLeaderboard_sorted_ranked_witness:
  "getLeaderboard (exStore active 1 exPlayersTie) ''s1'' =
     [\<lparr>l_playerId = ''p2'', l_playerName = ''Bob'', l_score = 75, l_rank = 1\<rparr>,
      \<lparr>l_playerId = ''p3'', l_playerName = ''Cy'', l_score = 75, l_rank = 2\<rparr>,
      \<lparr>l_playerId = ''p1'', l_playerName = ''Ann'', l_score = 50, l_rank = 3\<rparr>]
   \<and> length (getLeaderboard (exStore active 1 exPlayersTie) ''s1'') = 3
   \<and> map l_rank (getLeaderboard (exStore active 1 exPlayersTie) ''s1'') = [1, 2, 3]"
proof -
  have e: "getLeaderboard (exStore active 1 exPlayersTie) ''s1'' =
     [\<lparr>l_playerId = ''p2'', l_playerName = ''Bob'', l_score = 75, l_rank = 1\<rparr>,
      \<lparr>l_playerId = ''p3'', l_playerName = ''Cy'', l_score = 75, l_rank = 2\<rparr>,
      \<lparr>l_playerId = ''p1'', l_playerName = ''Ann'', l_score = 50, l_rank = 3\<rparr>]"
    by (simp add: getLeaderboard_def getSessionPlayers_def Let_def ex_defs exPlayersTie_def)
  from getLeaderboard_sorted_ranked [of "exStore active 1 exPlayersTie" "''s1''"] e
  show ?thesis by (simp add: upt_rec)
qed

section \<open>The join-code generator on short renderings\<close>

lemma toUpper_table:
  "list_all (\<lambda>c. isUpperAlnum (toUpperCase_char c)) ''0123456789abcdefghijklmnopqrstuvwxyz''"
  by code_simp

lemma toUpper_base36: "isBase36Digit c \<Longrightarrow> isUpperAlnum (toUpperCase_char c)"
  using toUpper_table unfolding isBase36Digit_def list_all_iff by blast

lemma generateJoinCode_rendering:
  assumes "isRendering r"
  shows "length (generateJoinCode r) = min 6 (length r - 2)"
    and "list_all isUpperAlnum (generateJoinCode r)"
proof -
  show "length (generateJoinCode r) = min 6 (length r - 2)"
    by (simp add: generateJoinCode_def substring_def toUpperCase_def)
  have "list_all isBase36Digit (drop 2 r)"
    using assms by (auto simp: isRendering_def)
  then have "list_all isBase36Digit (take 6 (drop 2 r))"
    by (auto simp: list_all_iff dest: in_set_takeD)
  then show "list_all isUpperAlnum (generateJoinCode r)"
    by (auto simp: generateJoinCode_def substring_def toUpperCase_def list_all_iff
        intro: toUpper_base36)
qed

text \<open>
  C7 asks for exactly 6 uppercase alphanumeric characters for every draw. The generator cuts
  at most 6 characters out of the rendering of the draw, so a draw with a short base-36
  rendering yields a shorter code: the draw 0.5 gives the one-character code I, the draw 0
  the empty code.
\<close>

theorem generateJoinCode_short_draw:
  "isRendering ''0.i'' \<and> generateJoinCode ''0.i'' = ''I'' \<and> length (generateJoinCode ''0.i'') = 1
   \<and> isRendering ''0'' \<and> generateJoinCode ''0'' = ''''"
  by (simp add: isRendering_def isBase36Digit_def generateJoinCode_def substring_def
      toUpperCase_def toUpperCase_char_def)

section \<open>Name collisions\<close>

declare uniqueNameLoop.simps [simp del]

lemma decimal_nonempty: "decimal n \<noteq> []"
  by (subst decimal.simps) simp

lemma uniqueNameLoop_spec:
  "\<not> nameTaken players (uniqueNameLoop players playerName cur k)
   \<and> (if nameTaken players cur
      then \<exists>m>k. uniqueNameLoop players playerName cur k = playerName @ decimal m
              \<and> (\<forall>j. k < j \<and> j < m \<longrightarrow> nameTaken players (playerName @ decimal j))
      else uniqueNameLoop players playerName cur k = cur)"
proof (induction players playerName cur k rule: uniqueNameLoop.induct)
  case (1 players playerName cur k)
  show ?case
  proof (cases "nameTaken players cur")
    case False
    then show ?thesis
      by (subst (1 2) uniqueNameLoop.simps) (simp add: nameTaken_def)
  next
    case True
    then have t: "find (\<lambda>p. p_name p = cur) players \<noteq> None"
      by (simp add: nameTaken_def)
    let ?next = "playerName @ decimal (k + 1)"
    let ?res = "uniqueNameLoop players playerName ?next (k + 1)"
    have unf: "uniqueNameLoop players playerName cur k = ?res"
      using t by (subst uniqueNameLoop.simps) simp
    note IH = "1.IH" [OF t]
    show ?thesis
    proof (cases "nameTaken players ?next")
      case False
      with IH have "?res = ?next" and "\<not> nameTaken players ?res" by simp_all
      then have "\<exists>m>k. ?res = playerName @ decimal m
              \<and> (\<forall>j. k < j \<and> j < m \<longrightarrow> nameTaken players (playerName @ decimal j))"
        by (intro exI [of _ "k + 1"]) auto
      with True \<open>\<not> nameTaken players ?res\<close> show ?thesis unfolding unf by simp
    next
      case nt: True
      with IH obtain m where m: "m > k + 1" "?res = playerName @ decimal m"
        "\<forall>j. k + 1 < j \<and> j < m \<longrightarrow> nameTaken players (playerName @ decimal j)"
        and free: "\<not> nameTaken players ?res"
        by auto
      have "\<forall>j. k < j \<and> j < m \<longrightarrow> nameTaken players (playerName @ decimal j)"
      proof (intro allI impI)
        fix j assume j: "k < j \<and> j < m"
        show "nameTaken players (playerName @ decimal j)"
        proof (cases "j = k + 1")
          case True
          with nt show ?thesis by simp
        next
          case False
          with j m(3) show ?thesis by auto
        qed
      qed
      with m(1,2) have "\<exists>m>k. ?res = playerName @ decimal m
              \<and> (\<forall>j. k < j \<and> j < m \<longrightarrow> nameTaken players (playerName @ decimal j))"
        by (intro exI [of _ m]) auto
      with True free show ?thesis unfolding unf by simp
    qed
  qed
qed

lemma joinSession_try_success:
  assumes "joinSession_try st code playerName newId now = (Inr (session, player), st')"
  obtains sessionId session0 where
    "getSessionByJoinCode st code = Some sessionId"
    "getSession st sessionId = Some session0"
    "status session0 = waiting"
    "player = \<lparr>p_id = newId,
        p_name = uniqueNameLoop (getSessionPlayers st sessionId) playerName playerName 1,
        p_sessionId = sessionId, score = 0, answers = [], isOnline = True, joinedAt = now\<rparr>"
    "session = session0\<lparr>s_players := getSessionPlayers st sessionId @ [player]\<rparr>"
    "st' = snd (savePlayer st sessionId player)"
  using assms unfolding joinSession_try_def
  by (auto split: option.splits if_splits prod.splits simp: Let_def)

text \<open>
  C8. When the requested name is already taken in the session, the name of the joined player
  is the first of \<open>name2, name3, ...\<close> that no player of the session holds, and the reply of
  the join handler tells the caller the original and the final name.
\<close>

theorem joinSession_effective_name:
  assumes ok: "joinSession_try st code playerName newId now = (Inr (session, player), st')"
    and taken: "nameTaken (getSessionPlayers st (p_sessionId player)) playerName"
  shows "(\<exists>k\<ge>2. p_name player = playerName @ decimal k
            \<and> \<not> nameTaken (getSessionPlayers st (p_sessionId player)) (playerName @ decimal k)
            \<and> (\<forall>j. 2 \<le> j \<and> j < k \<longrightarrow>
                   nameTaken (getSessionPlayers st (p_sessionId player)) (playerName @ decimal j)))
       \<and> p_name player \<noteq> playerName
       \<and> (\<exists>reply. player_join st code playerName newId now = (Some reply, st')
             \<and> jr_player reply = player
             \<and> nameChanged reply = Some (playerName, p_name player))"
proof -
  from ok obtain sessionId where
    nm: "p_name player = uniqueNameLoop (getSessionPlayers st sessionId) playerName playerName 1"
    and sid: "p_sessionId player = sessionId"
    by (rule joinSession_try_success) simp
  let ?ps = "getSessionPlayers st sessionId"
  from taken sid have t: "nameTaken ?ps playerName" by simp
  from uniqueNameLoop_spec [of ?ps playerName playerName 1] t
  obtain m where m: "m > 1" "p_name player = playerName @ decimal m"
    "\<forall>j. 1 < j \<and> j < m \<longrightarrow> nameTaken ?ps (playerName @ decimal j)"
    and free: "\<not> nameTaken ?ps (p_name player)"
    unfolding nm by auto
  have first: "\<exists>k\<ge>2. p_name player = playerName @ decimal k
            \<and> \<not> nameTaken ?ps (playerName @ decimal k)
            \<and> (\<forall>j. 2 \<le> j \<and> j < k \<longrightarrow> nameTaken ?ps (playerName @ decimal j))"
    using m free by (intro exI [of _ m]) auto
  have diff: "p_name player \<noteq> playerName"
    using m(2) decimal_nonempty [of m] by simp
  have reply: "\<exists>reply. player_join st code playerName newId now = (Some reply, st')
             \<and> jr_player reply = player
             \<and> nameChanged reply = Some (playerName, p_name player)"
    using ok diff by (simp add: player_join_def joinSession_def)
  from first diff reply show ?thesis unfolding sid by blast
qed

theorem joinSession_effective_name_witness:
  "joinSession_try (exStore waiting 0 exPlayersAnn) ''ABC123'' ''Ann'' ''p3'' 7 =
     (Inr ((exSession waiting 0)\<lparr>s_players := exPlayersAnn @ [exPlayer ''p3'' ''Ann3'' 0 []\<lparr>joinedAt := 7\<rparr>]\<rparr>,
           exPlayer ''p3'' ''Ann3'' 0 []\<lparr>joinedAt := 7\<rparr>),
      exStore waiting 0 (exPlayersAnn @ [exPlayer ''p3'' ''Ann3'' 0 []\<lparr>joinedAt := 7\<rparr>]))
   \<and> nameTaken (getSessionPlayers (exStore waiting 0 exPlayersAnn) ''s1'') ''Ann''
   \<and> (\<exists>reply. player_join (exStore waiting 0 exPlayersAnn) ''ABC123'' ''Ann'' ''p3'' 7 =
          (Some reply, exStore waiting 0 (exPlayersAnn @ [exPlayer ''p3'' ''Ann3'' 0 []\<lparr>joinedAt := 7\<rparr>]))
        \<and> nameChanged reply = Some (''Ann'', ''Ann3''))"
proof -
  let ?p = "exPlayer ''p3'' ''Ann3'' 0 []\<lparr>joinedAt := 7\<rparr>"
  have h: "joinSession_try (exStore waiting 0 exPlayersAnn) ''ABC123'' ''Ann'' ''p3'' 7 =
     (Inr ((exSession waiting 0)\<lparr>s_players := exPlayersAnn @ [?p]\<rparr>, ?p),
      exStore waiting 0 (exPlayersAnn @ [?p]))"
    by (simp add: joinSession_try_def getSessionByJoinCode_def getSession_def
        getSessionPlayers_def savePlayer_def uniqueNameLoop.simps decimal.simps Let_def
        ex_defs exPlayersAnn_def fun_eq_iff)
  have s: "p_sessionId ?p = ''s1''" by (simp add: exPlayer_def)
  have t: "nameTaken (getSessionPlayers (exStore waiting 0 exPlayersAnn) (p_sessionId ?p)) ''Ann''"
    by (simp add: nameTaken_def getSessionPlayers_def ex_defs exPlayersAnn_def)
  have n: "p_name ?p = ''Ann3''" by (simp add: exPlayer_def)
  from joinSession_effective_name [OF h t] h t show ?thesis unfolding s n by auto
qed

section \<open>Player records across calls\<close>

lemma playerItems_updateSession [simp]:
  "playerItems (snd (updateSession st sid f)) = playerItems st"
  by (simp add: updateSession_def split: option.splits)

lemma playerItems_finishGame [simp]:
  "playerItems (snd (finishGame st sid tF tC)) = playerItems st"
  by (simp add: finishGame_def Let_def split_beta split: option.splits)

lemma playerItems_startGame [simp]:
  "playerItems (snd (startGame st sid host now)) = playerItems st"
  by (simp add: startGame_def startGame_try_def Let_def split_beta split: option.splits sum.splits)

lemma playerItems_nextQuestion [simp]:
  "playerItems (snd (nextQuestion st sid host tF tC)) = playerItems st"
  by (simp add: nextQuestion_def nextQuestion_try_def Let_def split_beta
      split: option.splits sum.splits)

lemma playersOk_joinSession:
  assumes "playersOk (getSessionPlayers st sid)"
  shows "playersOk (getSessionPlayers (snd (joinSession st code playerName newId now)) sid)"
proof (cases "joinSession_try st code playerName newId now")
  case (Pair res st')
  show ?thesis
  proof (cases res)
    case (Inl e)
    with Pair have "st' = st"
      by (auto simp: joinSession_try_def Let_def split: option.splits if_splits prod.splits)
    with Pair Inl assms show ?thesis by (simp add: joinSession_def)
  next
    case (Inr sp)
    obtain session player where sp: "sp = (session, player)" by (cases sp)
    from Pair Inr sp have ok: "joinSession_try st code playerName newId now = (Inr (session, player), st')"
      by simp
    then obtain sessionId where
      pl: "score player = 0" "answers player = []"
      and st': "st' = snd (savePlayer st sessionId player)"
      by (rule joinSession_try_success) simp
    have "playerOk player" using pl by (simp add: playerOk_def)
    with assms have "playersOk (getSessionPlayers st' sid)"
      unfolding st' by (auto simp: playersOk_def getSessionPlayers_def savePlayer_def
          list_all_iff set_insort_key)
    with ok show ?thesis by (simp add: joinSession_def)
  qed
qed

lemma find_in_set: "find P xs = Some x \<Longrightarrow> x \<in> set xs"
  by (induction xs) (auto split: if_splits)

lemma playersOk_submitAnswer:
  assumes "playersOk (getSessionPlayers st sid)"
  shows "playersOk (getSessionPlayers (snd (submitAnswer st sessionId pid qid choice tta fb tCur tRec)) sid)"
proof (cases "submitAnswer_try st sessionId pid qid choice tta fb tCur tRec")
  case (Pair res st')
  show ?thesis
  proof (cases res)
    case (Inl e)
    with Pair have "st' = st"
      by (auto simp: submitAnswer_try_def Let_def split: option.splits if_splits prod.splits)
    with Pair Inl assms show ?thesis by (simp add: submitAnswer_def)
  next
    case (Inr r)
    with Pair have ok: "submitAnswer_try st sessionId pid qid choice tta fb tCur tRec = (Inr r, st')"
      by simp
    then obtain player where
      f: "find (\<lambda>p. p_id p = pid) (getSessionPlayers st sessionId) = Some player"
      and na: "find (\<lambda>a. questionId a = qid) (answers player) = None"
      and st': "st' = snd (updatePlayer st sessionId pid (score player + ar_points r)
             (answers player @ [\<lparr>questionId = qid, selectedChoice = choice,
                 timeToAnswer = tta, isCorrect = ar_isCorrect r,
                 points = ar_points r, submittedAt = Some tRec\<rparr>]))"
      by (rule submitAnswer_try_success) simp
    have res: "playersOk (getSessionPlayers st' sid)"
    proof (cases "sid = sessionId")
      case False
      with assms show ?thesis
        unfolding st' by (simp add: getSessionPlayers_def updatePlayer_def)
    next
      case True
      from f have "player \<in> set (getSessionPlayers st sid)"
        unfolding True by (rule find_in_set)
      with assms have pok: "playerOk player"
        by (simp add: playersOk_def list_all_iff)
      from na have fresh: "qid \<notin> questionId ` set (answers player)"
        by (auto simp: find_None_iff)
      let ?a = "\<lparr>questionId = qid, selectedChoice = choice,
                 timeToAnswer = tta, isCorrect = ar_isCorrect r,
                 points = ar_points r, submittedAt = Some tRec\<rparr>"
      have new: "playerOk (q\<lparr>score := score player + ar_points r, answers := answers player @ [?a]\<rparr>)"
        for q :: Player
        using pok fresh by (simp add: playerOk_def)
      show ?thesis
        using assms new unfolding st' True
        by (auto simp: getSessionPlayers_def updatePlayer_def playersOk_def list_all_iff)
    qed
    with ok show ?thesis by (simp add: submitAnswer_def)
  qed
qed

lemma playersOk_exec:
  assumes "playersOk (getSessionPlayers st sid)"
  shows "playersOk (getSessionPlayers (exec st c) sid)"
proof (cases c)
  case (JoinSession code playerName newId now)
  with playersOk_joinSession [OF assms] show ?thesis by simp
next
  case (StartGame sessionId host now)
  with assms show ?thesis by (simp add: getSessionPlayers_def)
next
  case (NextQuestion sessionId host tF tC)
  with assms show ?thesis by (simp add: getSessionPlayers_def)
next
  case (SubmitAnswer sessionId pid qid choice tta fb tCur tRec)
  with playersOk_submitAnswer [OF assms] show ?thesis by simp
next
  case (FinishGame sessionId tF tC)
  with assms show ?thesis by (simp add: getSessionPlayers_def)
next
  case (RemovePlayer sessionId pid)
  with assms show ?thesis
    by (auto simp: getSessionPlayers_def removePlayer_def removePlayerItem_def playersOk_def
        list_all_iff)
qed

lemma playersOk_run:
  "playersOk (getSessionPlayers st sid) \<Longrightarrow> playersOk (getSessionPlayers (run st calls) sid)"
  unfolding run_def
  by (induction calls arbitrary: st) (simp_all add: playersOk_exec)

text \<open>
  C4. Across any sequence of service calls (joins, submissions accepted or rejected, and the
  host's calls) every player of a session keeps a score equal to the sum of the points of
  its answers and at most one answer per question; a freshly joined player has score 0 and
  no answers, and stays consistent through the calls that follow the join.
\<close>

theorem player_score_invariant:
  assumes "playersOk (getSessionPlayers st sid)"
  shows "(\<forall>p\<in>set (getSessionPlayers (run st calls) sid).
            score p = sum_list (map points (answers p))
            \<and> distinct (map questionId (answers p)))
       \<and> (\<forall>session player st'.
            joinSession st code playerName newId now = (Some (session, player), st') \<longrightarrow>
              score player = 0 \<and> answers player = []
              \<and> player \<in> set (getSessionPlayers st' (p_sessionId player))
              \<and> (\<forall>p\<in>set (getSessionPlayers (run st' calls) sid).
                    score p = sum_list (map points (answers p))
                    \<and> distinct (map questionId (answers p))))"
proof -
  have inv: "\<forall>p\<in>set (getSessionPlayers (run s calls) sid).
            score p = sum_list (map points (answers p))
            \<and> distinct (map questionId (answers p))"
    if "playersOk (getSessionPlayers s sid)" for s
    using playersOk_run [OF that, of calls]
    by (simp add: playersOk_def list_all_iff playerOk_def)
  have join: "score player = 0 \<and> answers player = []
              \<and> player \<in> set (getSessionPlayers st' (p_sessionId player))
              \<and> (\<forall>p\<in>set (getSessionPlayers (run st' calls) sid).
                    score p = sum_list (map points (answers p))
                    \<and> distinct (map questionId (answers p)))"
    if j: "joinSession st code playerName newId now = (Some (session, player), st')"
    for session player st'
  proof -
    from j have ok: "joinSession_try st code playerName newId now = (Inr (session, player), st')"
      by (auto simp: joinSession_def split: prod.splits sum.splits)
    then obtain sessionId where
      pl: "score player = 0" "answers player = []" "p_sessionId player = sessionId"
      and st': "st' = snd (savePlayer st sessionId player)"
      by (rule joinSession_try_success) simp
    have mem: "player \<in> set (getSessionPlayers st' (p_sessionId player))"
      unfolding st' pl(3) by (simp add: getSessionPlayers_def savePlayer_def set_insort_key)
    have "st' = snd (joinSession st code playerName newId now)" using j by simp
    then have "playersOk (getSessionPlayers st' sid)"
      using playersOk_joinSession [OF assms, of code playerName newId now] by simp
    from inv [OF this] pl mem show ?thesis by simp
  qed
  from inv [OF assms] join show ?thesis by blast
qed

theorem player_score_invariant_witness:
  "playersOk (getSessionPlayers (exStore waiting 0 []) ''s1'')
   \<and> getSessionPlayers (run (exStore waiting 0 []) exCalls) ''s1'' =
       [\<lparr>p_id = ''p1'', p_name = ''Ann'', p_sessionId = ''s1'', score = 100,
         answers = [\<lparr>questionId = ''q1'', selectedChoice = 1, timeToAnswer = 900,
                     isCorrect = True, points = 100, submittedAt = Some 41\<rparr>],
         isOnline = True, joinedAt = 1\<rparr>]
   \<and> playersOk (getSessionPlayers (run (exStore waiting 0 []) exCalls) ''s1'')"
proof -
  let ?p0 = "\<lparr>p_id = ''p1'', p_name = ''Ann'', p_sessionId = ''s1'', score = 0,
         answers = [], isOnline = True, joinedAt = 1\<rparr>"
  let ?p1 = "\<lparr>p_id = ''p1'', p_name = ''Ann'', p_sessionId = ''s1'', score = 100,
         answers = [\<lparr>questionId = ''q1'', selectedChoice = 1, timeToAnswer = 900,
                     isCorrect = True, points = 100, submittedAt = Some 41\<rparr>],
         isOnline = True, joinedAt = 1\<rparr>"
  let ?started = "\<lambda>ps. (exStore active 0 ps)
      \<lparr>sessionItems := [''s1'' \<mapsto> (exSession active 0)\<lparr>startedAt := Some 2\<rparr>]\<rparr>"
  have h: "playersOk (getSessionPlayers (exStore waiting 0 []) ''s1'')"
    by (simp add: playersOk_def getSessionPlayers_def exStore_def)
  have c1: "exec (exStore waiting 0 []) (JoinSession ''ABC123'' ''Ann'' ''p1'' 1) =
      exStore waiting 0 [?p0]"
    by (simp add: joinSession_def joinSession_try_def getSessionByJoinCode_def getSession_def
        getSessionPlayers_def savePlayer_def uniqueNameLoop.simps Let_def ex_defs fun_eq_iff)
  have c2: "exec (exStore waiting 0 [?p0]) (StartGame ''s1'' ''host'' 2) = ?started [?p0]"
    by (simp add: startGame_def startGame_try_def getSession_def getSessionPlayers_def
        updateSession_def Let_def ex_defs fun_eq_iff)
  have c3: "exec (?started [?p0]) (SubmitAnswer ''s1'' ''p1'' ''q1'' 1 900 exClock 40 41)
      = ?started [?p1]"
    by (simp add: submitAnswer_def submitAnswer_try_def getSession_def getSessionPlayers_def
        scoreCorrect_def correctAnswersForQuestion_def currentEntry_def dynamicPoints_def
        updatePlayer_def Let_def ex_defs fun_eq_iff)
  have c4: "exec (?started [?p1]) (SubmitAnswer ''s1'' ''p1'' ''q1'' 1 900 exClock 50 51)
      = ?started [?p1]"
    by (simp add: submitAnswer_def submitAnswer_try_def getSession_def getSessionPlayers_def
        Let_def ex_defs)
  have r: "run (exStore waiting 0 []) exCalls = ?started [?p1]"
    unfolding run_def exCalls_def foldl.simps c1 c2 c3 c4 ..
  have e: "getSessionPlayers (run (exStore waiting 0 []) exCalls) ''s1'' = [?p1]"
    unfolding r by (simp add: getSessionPlayers_def exStore_def)
  from player_score_invariant [OF h, of exCalls] h e show ?thesis
    by (simp add: playersOk_def playerOk_def)
qed

section \<open>The question index across calls\<close>


lemma getSession_saveGameResult [simp]:
  "getSession (saveGameResult st a now) b = getSession st b"
  by (simp add: getSession_def)


lemma getSession_joinSession [simp]:
  "getSession (snd (joinSession st code playerName newId now)) b = getSession st b"
  by (simp add: joinSession_def joinSession_try_def savePlayer_def getSession_def Let_def
      split_beta split: option.splits sum.splits)

lemma getSession_submitAnswer [simp]:
  "getSession (snd (submitAnswer st a pid qid choice tta fb tCur tRec)) b = getSession st b"
  by (simp add: submitAnswer_def submitAnswer_try_def updatePlayer_def getSession_def Let_def
      split_beta split: option.splits sum.splits)

lemma getSession_removePlayer [simp]:
  "getSession (snd (removePlayer st a pid)) b = getSession st b"
  by (simp add: removePlayer_def removePlayerItem_def getSession_def)










section \<open>Keys of the player items\<close>

text \<open>
  The player items of a session are keyed by the player id, so their ids are distinct; the
  service calls keep them so.
\<close>

lemma distinct_ids_savePlayer:
  assumes "distinct (map p_id ps)" and "p_id p = k"
  shows "distinct (map p_id (insort_key p_id p (filter (\<lambda>x. p_id x \<noteq> k) ps)))"
proof -
  let ?ys = "filter (\<lambda>x. p_id x \<noteq> k) ps"
  have d: "distinct (map p_id ?ys)"
    using assms(1) by (rule distinct_map_filter)
  have n: "p_id p \<notin> set (map p_id ?ys)"
    using assms(2) by auto
  have "mset (map p_id (insort_key p_id p ?ys)) = mset (map p_id (p # ?ys))"
    by simp
  then have "distinct (map p_id (insort_key p_id p ?ys)) = distinct (map p_id (p # ?ys))"
    by (rule mset_eq_imp_distinct_iff)
  with d n show ?thesis by simp
qed

lemma distinct_ids_exec:
  assumes "distinct (map p_id (getSessionPlayers st sid))"
  shows "distinct (map p_id (getSessionPlayers (exec st c) sid))"
proof (cases c)
  case (JoinSession code playerName newId now)
  show ?thesis
    using assms unfolding JoinSession
    by (auto simp: joinSession_def joinSession_try_def getSessionPlayers_def savePlayer_def
        Let_def split: option.splits intro!: distinct_ids_savePlayer)
next
  case (StartGame sessionId host now)
  with assms show ?thesis by (simp add: getSessionPlayers_def)
next
  case (NextQuestion sessionId host tF tC)
  with assms show ?thesis by (simp add: getSessionPlayers_def)
next
  case (SubmitAnswer sessionId pid qid choice tta fb tCur tRec)
  have same: "map p_id (map (\<lambda>p. if p_id p = pid then p\<lparr>score := a, answers := b\<rparr> else p) ps)
      = map p_id ps" for a b and ps :: "Player list"
    by (induction ps) simp_all
  show ?thesis
    using assms unfolding SubmitAnswer
    by (auto simp: submitAnswer_def submitAnswer_try_def getSessionPlayers_def updatePlayer_def
        Let_def split_beta same simp del: map_map split: option.splits)
next
  case (FinishGame sessionId tF tC)
  with assms show ?thesis by (simp add: getSessionPlayers_def)
next
  case (RemovePlayer sessionId pid)
  with assms show ?thesis
    by (auto simp: getSessionPlayers_def removePlayer_def removePlayerItem_def
        intro: distinct_map_filter)
qed

lemma distinct_ids_run:
  "distinct (map p_id (getSessionPlayers st sid)) \<Longrightarrow>
     distinct (map p_id (getSessionPlayers (run st calls) sid))"
  unfolding run_def
  by (induction calls arbitrary: st) (simp_all add: distinct_ids_exec)

end
